theory Spec2Isabelle
  imports Complex_Main
begin

section \<open>Strings: the Python string operations the scheduler uses\<close>

text \<open>
  Strings are byte lists. \<open>str.strip()\<close> removes the ASCII white space characters of
  Python (\<open>' '\<close>, \<open>\t\<close>, \<open>\n\<close>, \<open>\v\<close>, \<open>\f\<close>, \<open>\r\<close> and the separators
  \<open>0x1C\<close> to \<open>0x1F\<close>) from both ends; \<open>s.split(c)\<close> cuts at every occurrence of \<open>c\<close>;
  \<open>int(s)\<close> strips, reads an optional sign and a decimal literal in which single
  underscores may stand between digits, and raises \<open>ValueError\<close> (here \<open>None\<close>) otherwise.
\<close>

definition is_space :: "char \<Rightarrow> bool" where
  "is_space c = (c \<in> set [CHR '' '', CHR 0x09, CHR 0x0A, CHR 0x0B, CHR 0x0C, CHR 0x0D,
                           CHR 0x1C, CHR 0x1D, CHR 0x1E, CHR 0x1F])"

definition strip :: "string \<Rightarrow> string" where
  "strip s = rev (dropWhile is_space (rev (dropWhile is_space s)))"

fun split_on :: "char \<Rightarrow> string \<Rightarrow> string list" where
  "split_on c [] = [[]]"
| "split_on c (x # xs) =
     (if x = c then [] # split_on c xs
      else (case split_on c xs of
              [] \<Rightarrow> [[x]]
            | p # ps \<Rightarrow> (x # p) # ps))"

definition is_digit :: "char \<Rightarrow> bool" where
  "is_digit c = (48 \<le> (of_char c :: nat) \<and> (of_char c :: nat) \<le> 57)"

definition digit_val :: "char \<Rightarrow> int" where
  "digit_val c = int (of_char c) - 48"

fun dec_literal :: "string \<Rightarrow> bool" where
  "dec_literal [] = False"
| "dec_literal [c] = is_digit c"
| "dec_literal (c # d # cs) =
     (is_digit c \<and> (if d = CHR ''_'' then dec_literal cs else dec_literal (d # cs)))"

definition dec_value :: "string \<Rightarrow> int" where
  "dec_value s = foldl (\<lambda>n c. 10 * n + digit_val c) 0 (filter is_digit s)"

definition py_int :: "string \<Rightarrow> int option" where
  "py_int s =
     (case strip s of
        [] \<Rightarrow> None
      | c # cs \<Rightarrow>
          if c = CHR ''+'' then (if dec_literal cs then Some (dec_value cs) else None)
          else if c = CHR ''-'' then (if dec_literal cs then Some (- dec_value cs) else None)
          else if dec_literal (c # cs) then Some (dec_value (c # cs))
          else None)"

section \<open>Slot catalog\<close>

text \<open>
  \<open>calc_slot_duration\<close> (main.py, lines 20 to 24). Both unpackings want exactly two
  parts and every part must be read by \<open>int\<close>; any failure is a \<open>ValueError\<close>, here
  \<open>None\<close>. The source computes in floating point; the model computes the same
  expression in exact rationals (rounding is not modelled).
\<close>

definition hm :: "string \<Rightarrow> (int \<times> int) option" where
  "hm t =
     (case map py_int (split_on (CHR '':'') t) of
        [Some h, Some m] \<Rightarrow> Some (h, m)
      | _ \<Rightarrow> None)"

definition calc_slot_duration :: "string \<Rightarrow> rat option" where
  "calc_slot_duration slot =
     (case split_on (CHR ''-'') slot of
        [start, end] \<Rightarrow>
          (case hm start of
             None \<Rightarrow> None
           | Some (h1, m1) \<Rightarrow>
               (case hm end of
                  None \<Rightarrow> None
                | Some (h2, m2) \<Rightarrow>
                    Some ((of_int h2 + of_int m2 / 60) - (of_int h1 + of_int m1 / 60))))
      | _ \<Rightarrow> None)"



section \<open>Constants and state of one scheduling run\<close>

definition week_days :: "string list" where
  "week_days = [''Monday'', ''Tuesday'', ''Wednesday'', ''Thursday'', ''Friday'']"

definition excluded_slots :: "string list" where
  "excluded_slots = [''07:30-09:00'', ''13:15-14:00'', ''17:30-18:30'']"

definition MAX_ATTEMPTS :: nat where
  "MAX_ATTEMPTS = 10"

text \<open>
  What the module loads before any timetable is built: the slot labels in catalog order
  (the columns of the frame, taken as pairwise distinct), the dictionary of their
  durations (read only at catalog labels), the two room pools, and the values the seeded
  generator will yield, in order. \<open>random.choice\<close> is an index into the sequence,
  computed from the next raw value.
\<close>

record config =
  slot_keys :: "string list"
  time_durations :: "string \<Rightarrow> rat"
  classrooms :: "string list"
  labs :: "string list"
  random_stream :: "nat \<Rightarrow> nat"

text \<open>
  The mutable state of \<open>create_timetable\<close>: the frame (day and slot to occupant tag,
  the empty string when free), the faculty names recorded per day, the global room
  table, the number of random draws consumed so far, and the diagnostics printed.
\<close>

record sched =
  tt_frame :: "string \<Rightarrow> string \<Rightarrow> string"
  faculty_schedule :: "string \<Rightarrow> string list"
  room_allocations :: "string \<rightharpoonup> string"
  draws :: nat
  printed :: "string list"

definition choice :: "config \<Rightarrow> nat \<Rightarrow> 'a list \<Rightarrow> 'a" where
  "choice cfg n xs = xs ! (random_stream cfg n mod length xs)"

section \<open>Free-block finder\<close>

text \<open>
  \<open>find_free_blocks\<close> (main.py, lines 59 to 71). \<open>is_free\<close> is the test of line 63;
  \<open>scan_slots\<close> is the loop with its two accumulators and the flush of lines 69 to 70.
\<close>

definition is_free :: "(string \<Rightarrow> string \<Rightarrow> string) \<Rightarrow> string \<Rightarrow> string \<Rightarrow> bool" where
  "is_free frame day slot = (frame day slot = [] \<and> slot \<notin> set excluded_slots)"

fun scan_slots :: "('a \<Rightarrow> bool) \<Rightarrow> 'a list \<Rightarrow> 'a list list \<Rightarrow> 'a list \<Rightarrow> 'a list list" where
  "scan_slots free [] free_groups temp_group =
     (if temp_group \<noteq> [] then free_groups @ [temp_group] else free_groups)"
| "scan_slots free (slot # rest) free_groups temp_group =
     (if free slot then scan_slots free rest free_groups (temp_group @ [slot])
      else if temp_group \<noteq> [] then scan_slots free rest (free_groups @ [temp_group]) []
      else scan_slots free rest free_groups temp_group)"

definition find_free_blocks :: "config \<Rightarrow> (string \<Rightarrow> string \<Rightarrow> string) \<Rightarrow> string \<Rightarrow> string list list" where
  "find_free_blocks cfg frame day = scan_slots (is_free frame day) (slot_keys cfg) [] []"

text \<open>
  The specification's reading, for comparison: the maximal runs of consecutive elements
  that satisfy a test. Skip what fails the test, take the longest prefix that passes,
  continue behind it.
\<close>

function maximal_runs :: "('a \<Rightarrow> bool) \<Rightarrow> 'a list \<Rightarrow> 'a list list" where
  "maximal_runs P xs =
     (case dropWhile (\<lambda>x. \<not> P x) xs of
        [] \<Rightarrow> []
      | y # ys \<Rightarrow> takeWhile P (y # ys) # maximal_runs P (dropWhile P ys))"
  by pat_completeness auto
termination
proof (relation "measure (\<lambda>(P, xs). length xs)")
  show "wf (measure (\<lambda>(P, xs). length xs))" by simp
next
  fix P :: "'a \<Rightarrow> bool" and xs y ys
  assume a: "dropWhile (\<lambda>x. \<not> P x) xs = y # ys"
  have "length (dropWhile P ys) \<le> length ys"
    by (rule length_dropWhile_le)
  moreover have "length (y # ys) \<le> length xs"
    using length_dropWhile_le [of "\<lambda>x. \<not> P x" xs] a by simp
  ultimately show "((P, dropWhile P ys), (P, xs)) \<in> measure (\<lambda>(P, xs). length xs)"
    by simp
qed

declare maximal_runs.simps [simp del]

section \<open>Session placer\<close>

text \<open>
  \<open>place_session\<close> (main.py, lines 76 to 116). Every path through the body of the test
  of line 80 returns, so the loop over the groups acts on the first group whose total
  duration suffices and on no other: \<open>List.find\<close> with \<open>fits\<close>, the test of lines 79 to
  80. \<open>fill_group\<close> is the inner loop of lines 83 to 87, \<open>resolve_room\<close> lines 90 to 103
  (with the diagnostic it prints when the pool is empty; \<open>None\<close> is the early return),
  \<open>occupant_tag\<close> the tag of lines 106 to 111 (\<open>None\<close>: a session type other than L, T,
  P writes nothing), \<open>write_slots\<close> the loop of line 105, and \<open>record_faculty\<close> lines 113
  to 114. The source never reads \<open>room\<close> for an elective, where the variable is unbound;
  the tag function receives the empty string in its place.
\<close>

fun fill_group :: "(string \<Rightarrow> rat) \<Rightarrow> rat \<Rightarrow> string list \<Rightarrow> rat \<Rightarrow> string list" where
  "fill_group td duration_hours [] duration_accum = []"
| "fill_group td duration_hours (s # rest) duration_accum =
     (if duration_hours \<le> duration_accum + td s then [s]
      else s # fill_group td duration_hours rest (duration_accum + td s))"

definition resolve_room :: "config \<Rightarrow> sched \<Rightarrow> string \<Rightarrow> string \<Rightarrow> sched \<times> string option" where
  "resolve_room cfg st course_code session_type =
     (case room_allocations st course_code of
        Some room \<Rightarrow> (st, Some room)
      | None \<Rightarrow>
          if session_type = ''P'' then
            (if labs cfg = []
             then (st\<lparr>printed := printed st @ [''No labs available for '' @ course_code]\<rparr>, None)
             else (st\<lparr>room_allocations :=
                         (room_allocations st)(course_code \<mapsto> choice cfg (draws st) (labs cfg)),
                       draws := draws st + 1\<rparr>,
                   Some (choice cfg (draws st) (labs cfg))))
          else
            (if classrooms cfg = []
             then (st\<lparr>printed := printed st @ [''No classrooms available for '' @ course_code]\<rparr>, None)
             else (st\<lparr>room_allocations :=
                         (room_allocations st)(course_code \<mapsto> choice cfg (draws st) (classrooms cfg)),
                       draws := draws st + 1\<rparr>,
                   Some (choice cfg (draws st) (classrooms cfg)))))"

definition occupant_tag :: "string \<Rightarrow> string \<Rightarrow> string \<Rightarrow> bool \<Rightarrow> string option" where
  "occupant_tag session_type course_code room is_elective =
     (if session_type = ''L'' then
        Some (if is_elective then course_code else course_code @ '' ('' @ room @ '')'')
      else if session_type = ''T'' then
        Some (if is_elective then course_code @ ''T'' else course_code @ ''T ('' @ room @ '')'')
      else if session_type = ''P'' then
        Some (if is_elective then course_code else course_code @ '' (Lab-'' @ room @ '')'')
      else None)"

definition set_cell :: "(string \<Rightarrow> string \<Rightarrow> string) \<Rightarrow> string \<Rightarrow> string \<Rightarrow> string \<Rightarrow> (string \<Rightarrow> string \<Rightarrow> string)" where
  "set_cell frame day slot v = frame(day := (frame day)(slot := v))"

fun write_slots :: "(string \<Rightarrow> string \<Rightarrow> string) \<Rightarrow> string \<Rightarrow> string list \<Rightarrow> string option \<Rightarrow> (string \<Rightarrow> string \<Rightarrow> string)" where
  "write_slots frame day [] tag = frame"
| "write_slots frame day (s # rest) tag =
     write_slots (case tag of None \<Rightarrow> frame | Some v \<Rightarrow> set_cell frame day s v) day rest tag"

definition record_faculty :: "sched \<Rightarrow> string \<Rightarrow> string \<Rightarrow> sched" where
  "record_faculty st day faculty =
     (if faculty \<noteq> [] then
        st\<lparr>faculty_schedule := (faculty_schedule st)(day := faculty_schedule st day @ [faculty])\<rparr>
      else st)"

definition fits :: "config \<Rightarrow> rat \<Rightarrow> string list \<Rightarrow> bool" where
  "fits cfg duration_hours group_slots = (duration_hours \<le> sum_list (map (time_durations cfg) group_slots))"

definition place_session ::
    "config \<Rightarrow> sched \<Rightarrow> string \<Rightarrow> string \<Rightarrow> string \<Rightarrow> rat \<Rightarrow> string \<Rightarrow> bool \<Rightarrow> bool \<times> sched" where
  "place_session cfg st day faculty course_code duration_hours session_type is_elective =
     (case List.find (fits cfg duration_hours) (find_free_blocks cfg (tt_frame st) day) of
        None \<Rightarrow> (False, st)
      | Some group_slots \<Rightarrow>
          (let slots_to_fill = fill_group (time_durations cfg) duration_hours group_slots 0 in
           if is_elective then
             (True, record_faculty
                      (st\<lparr>tt_frame := write_slots (tt_frame st) day slots_to_fill
                                          (occupant_tag session_type course_code [] True)\<rparr>)
                      day faculty)
           else
             (case resolve_room cfg st course_code session_type of
                (st1, None) \<Rightarrow> (False, st1)
              | (st1, Some room) \<Rightarrow>
                  (True, record_faculty
                           (st1\<lparr>tt_frame := write_slots (tt_frame st1) day slots_to_fill
                                                (occupant_tag session_type course_code room False)\<rparr>)
                           day faculty))))"

section \<open>Course scheduler\<close>

text \<open>
  The three loops of \<open>create_timetable\<close> (main.py, lines 214 to 247) differ in the
  session type, in the size of the session they ask for and in nothing else.
  \<open>alloc_hours\<close> is that size (lines 221, 233 and 244; the tutorial loop subtracts the
  same 1 it asks for), \<open>day_loop\<close> one pass over the days with its \<open>continue\<close> and
  \<open>break\<close>, \<open>pass_loop\<close> the \<open>while\<close> with its counter. Hours are rationals: 1.5 is
  subtracted from an integer.
\<close>

datatype session = Lecture | Tutorial | Practical

fun session_code :: "session \<Rightarrow> string" where
  "session_code Lecture = ''L''"
| "session_code Tutorial = ''T''"
| "session_code Practical = ''P''"

fun alloc_hours :: "session \<Rightarrow> rat \<Rightarrow> rat" where
  "alloc_hours Lecture remaining = min (3 / 2) remaining"
| "alloc_hours Tutorial remaining = 1"
| "alloc_hours Practical remaining = (if 2 \<le> remaining then min 2 remaining else remaining)"

fun day_loop ::
    "config \<Rightarrow> string \<Rightarrow> string \<Rightarrow> bool \<Rightarrow> session \<Rightarrow> string list \<Rightarrow> sched \<Rightarrow> rat \<Rightarrow> sched \<times> rat" where
  "day_loop cfg faculty course_code is_elective ty [] st remaining = (st, remaining)"
| "day_loop cfg faculty course_code is_elective ty (day # days) st remaining =
     (if remaining \<le> 0 \<or> (faculty \<noteq> [] \<and> faculty \<in> set (faculty_schedule st day)) then
        day_loop cfg faculty course_code is_elective ty days st remaining
      else
        (case place_session cfg st day faculty course_code (alloc_hours ty remaining)
                (session_code ty) is_elective of
           (placed, st') \<Rightarrow>
             if placed then (st', remaining - alloc_hours ty remaining)
             else day_loop cfg faculty course_code is_elective ty days st' remaining))"

function pass_loop ::
    "config \<Rightarrow> string \<Rightarrow> string \<Rightarrow> bool \<Rightarrow> session \<Rightarrow> sched \<Rightarrow> rat \<Rightarrow> nat \<Rightarrow> sched \<times> rat \<times> nat" where
  "pass_loop cfg faculty course_code is_elective ty st remaining attempts =
     (if 0 < remaining \<and> attempts < MAX_ATTEMPTS then
        pass_loop cfg faculty course_code is_elective ty
          (fst (day_loop cfg faculty course_code is_elective ty week_days st remaining))
          (snd (day_loop cfg faculty course_code is_elective ty week_days st remaining))
          (attempts + 1)
      else (st, remaining, attempts))"
  by pat_completeness auto
termination
  by (relation "measure (\<lambda>(cfg, faculty, course_code, is_elective, ty, st, remaining, attempts).
                           MAX_ATTEMPTS - attempts)") auto

declare pass_loop.simps [simp del]

section \<open>Timetable builder\<close>

text \<open>
  A course is a row of the course table, its fields already turned into strings as the
  code does with \<open>str\<close>. \<open>parse_ltpsc\<close> is line 210: five integers or the course is
  skipped. \<open>schedule_course\<close> is the body of the loop of line 204, \<open>clear_excluded\<close> the
  loops of lines 249 to 252, \<open>select_courses\<close> lines 192 to 202 (the list the loop of
  line 204 runs over, and the draws consumed after the choice of the elective),
  \<open>initial_state\<close> lines 187 to 190, \<open>create_timetable\<close> lines 186 to 252; it receives
  the global room table and the number of draws consumed before the call, and returns
  the state whose frame is written to the file (rendering is not modelled).
\<close>

record course =
  Course_Code :: string
  Faculty :: string
  LTPSC :: string
  Elective :: string

definition parse_ltpsc :: "string \<Rightarrow> (int \<times> int \<times> int) option" where
  "parse_ltpsc s =
     (case map (\<lambda>x. py_int (strip x)) (split_on (CHR ''-'') s) of
        [Some L, Some T, Some P, Some S, Some C] \<Rightarrow> Some (L, T, P)
      | _ \<Rightarrow> None)"

definition schedule_session ::
    "config \<Rightarrow> string \<Rightarrow> string \<Rightarrow> bool \<Rightarrow> session \<Rightarrow> int \<Rightarrow> sched \<Rightarrow> sched" where
  "schedule_session cfg faculty course_code is_elective ty hours st =
     fst (pass_loop cfg faculty course_code is_elective ty st (of_int hours) 0)"

definition schedule_course :: "config \<Rightarrow> course \<Rightarrow> sched \<Rightarrow> sched" where
  "schedule_course cfg c st =
     (let faculty = strip (Faculty c);
          course_code = strip (Course_Code c);
          is_elective = (course_code = ''Elective'')
      in case parse_ltpsc (LTPSC c) of
           None \<Rightarrow> st
         | Some (L, T, P) \<Rightarrow>
             schedule_session cfg faculty course_code is_elective Practical P
               (schedule_session cfg faculty course_code is_elective Tutorial T
                  (schedule_session cfg faculty course_code is_elective Lecture L st)))"

definition clear_slot :: "string list \<Rightarrow> string \<Rightarrow> string \<Rightarrow> (string \<Rightarrow> string \<Rightarrow> string) \<Rightarrow> (string \<Rightarrow> string \<Rightarrow> string)" where
  "clear_slot columns day slot frame =
     (if slot \<in> set columns then set_cell frame day slot [] else frame)"

definition clear_excluded :: "string list \<Rightarrow> (string \<Rightarrow> string \<Rightarrow> string) \<Rightarrow> (string \<Rightarrow> string \<Rightarrow> string)" where
  "clear_excluded columns frame =
     fold (\<lambda>day fr. fold (clear_slot columns day) excluded_slots fr) week_days frame"

definition initial_state :: "nat \<Rightarrow> sched" where
  "initial_state n =
     \<lparr>tt_frame = (\<lambda>day slot. []), faculty_schedule = (\<lambda>day. []),
      room_allocations = Map.empty, draws = n, printed = []\<rparr>"

definition elective_course :: "course \<Rightarrow> course" where
  "elective_course chosen_elective =
     \<lparr>Course_Code = ''Elective'', Faculty = Faculty chosen_elective,
      LTPSC = LTPSC chosen_elective, Elective = ''0''\<rparr>"

definition select_courses :: "config \<Rightarrow> course list \<Rightarrow> nat \<Rightarrow> course list \<times> nat" where
  "select_courses cfg course_list old_draws =
     (let electives = filter (\<lambda>c. Elective c = ''1'') course_list;
          mandatory = filter (\<lambda>c. Elective c \<noteq> ''1'') course_list
      in if electives \<noteq> []
         then (mandatory @ [elective_course (choice cfg old_draws electives)], old_draws + 1)
         else (mandatory, old_draws))"

definition create_timetable :: "config \<Rightarrow> course list \<Rightarrow> (string \<rightharpoonup> string) \<Rightarrow> nat \<Rightarrow> sched" where
  "create_timetable cfg course_list old_room_allocations old_draws =
     (let mandatory = fst (select_courses cfg course_list old_draws);
          st0 = initial_state (snd (select_courses cfg course_list old_draws));
          st1 = fold (schedule_course cfg) mandatory st0
      in st1\<lparr>tt_frame := clear_excluded (slot_keys cfg) (tt_frame st1)\<rparr>)"

section \<open>Concrete runs\<close>

text \<open>
  The dictionary of line 26 at a catalog label. The module fails to load when a label is
  not read by \<open>calc_slot_duration\<close>, so the dictionary exists only where every label is.
  \<open>scenario_config\<close> is the end-to-end scenario of the specification: three one-hour
  slots, none of them excluded; \<open>lunch_config\<close> has the excluded lunch slot in the
  middle of its catalog. \<open>after_first_pass\<close> is the state the scenario reaches after one
  pass of the lecture loop, \<open>after_lectures\<close> after the whole loop, \<open>after_practical\<close>
  after a two-hour practical of the same course has been placed behind the lectures, and
  \<open>busy_week\<close> a state whose faculty sets hold X on every day.
\<close>

definition loaded_durations :: "string \<Rightarrow> rat" where
  "loaded_durations slot = the (calc_slot_duration slot)"

definition scenario_slots :: "string list" where
  "scenario_slots = [''08:00-09:00'', ''09:00-10:00'', ''10:00-11:00'']"

definition scenario_config :: "string list \<Rightarrow> string list \<Rightarrow> (nat \<Rightarrow> nat) \<Rightarrow> config" where
  "scenario_config cs ls rs =
     \<lparr>slot_keys = scenario_slots, time_durations = loaded_durations,
      classrooms = cs, labs = ls, random_stream = rs\<rparr>"

definition scenario_course :: "string \<Rightarrow> course" where
  "scenario_course ltpsc =
     \<lparr>Course_Code = ''CODE'', Faculty = ''X'', LTPSC = ltpsc, Elective = ''0''\<rparr>"

definition lunch_config :: config where
  "lunch_config =
     \<lparr>slot_keys = [''12:15-13:15'', ''13:15-14:00'', ''14:00-15:00''],
      time_durations = loaded_durations, classrooms = [''R1''], labs = [],
      random_stream = (\<lambda>n. 0)\<rparr>"

definition after_first_pass :: "nat \<Rightarrow> sched" where
  "after_first_pass n =
     \<lparr>tt_frame = (\<lambda>day slot. [])
        (''Monday'' := (\<lambda>slot. [])(''08:00-09:00'' := ''CODE (R1)'',
                                   ''09:00-10:00'' := ''CODE (R1)'')),
      faculty_schedule = (\<lambda>day. [])(''Monday'' := [''X'']),
      room_allocations = [''CODE'' \<mapsto> ''R1''], draws = Suc n, printed = []\<rparr>"

definition after_lectures :: "nat \<Rightarrow> sched" where
  "after_lectures n =
     \<lparr>tt_frame = (\<lambda>day slot. [])
        (''Monday'' := (\<lambda>slot. [])(''08:00-09:00'' := ''CODE (R1)'',
                                   ''09:00-10:00'' := ''CODE (R1)''),
         ''Tuesday'' := (\<lambda>slot. [])(''08:00-09:00'' := ''CODE (R1)'')),
      faculty_schedule = (\<lambda>day. [])(''Monday'' := [''X''], ''Tuesday'' := [''X'']),
      room_allocations = [''CODE'' \<mapsto> ''R1''], draws = Suc n, printed = []\<rparr>"

definition after_practical :: "nat \<Rightarrow> sched" where
  "after_practical n =
     (after_lectures n)
       \<lparr>tt_frame := (tt_frame (after_lectures n))
          (''Wednesday'' := (\<lambda>slot. [])(''08:00-09:00'' := ''CODE (Lab-R1)'',
                                        ''09:00-10:00'' := ''CODE (Lab-R1)'')),
        faculty_schedule := (faculty_schedule (after_lectures n))(''Wednesday'' := [''X''])\<rparr>"

definition busy_week :: sched where
  "busy_week =
     \<lparr>tt_frame = (\<lambda>day slot. []), faculty_schedule = (\<lambda>day. [''X'']),
      room_allocations = Map.empty, draws = 0, printed = []\<rparr>"

section \<open>The slot catalog: durations\<close>










section \<open>The free-block finder returns the maximal free runs\<close>

lemma maximal_runs_Nil: "maximal_runs P [] = []"
  by (simp add: maximal_runs.simps)

lemma maximal_runs_skip: "\<not> P x \<Longrightarrow> maximal_runs P (x # xs) = maximal_runs P xs"
  by (simp add: maximal_runs.simps [of P "x # xs"] maximal_runs.simps [of P xs])

lemma maximal_runs_run:
  assumes "t \<noteq> []" "\<forall>x\<in>set t. P x" "xs = [] \<or> \<not> P (hd xs)"
  shows "maximal_runs P (t @ xs) = t # maximal_runs P xs"
proof -
  obtain y ys where t: "t = y # ys" using assms(1) by (cases t) auto
  have d: "dropWhile (\<lambda>x. \<not> P x) (t @ xs) = y # (ys @ xs)"
    using assms(2) t by simp
  have tw: "takeWhile P (y # ys @ xs) = t"
    using assms(2,3) t by (cases xs) auto
  have dw: "dropWhile P (ys @ xs) = xs"
    using assms(2,3) t by (cases xs) auto
  show ?thesis
    by (subst maximal_runs.simps) (simp only: d tw dw list.case)
qed

lemma scan_slots_runs:
  "\<forall>x\<in>set t. P x \<Longrightarrow> scan_slots P xs G t = G @ maximal_runs P (t @ xs)"
proof (induction xs arbitrary: G t)
  case Nil
  then show ?case
    using maximal_runs_run [of t P "[]"] by (simp add: maximal_runs_Nil)
next
  case (Cons x xs)
  show ?case
  proof (cases "P x")
    case True
    then show ?thesis using Cons.IH [of "t @ [x]" G] Cons.prems by simp
  next
    case False
    show ?thesis
    proof (cases "t = []")
      case True
      then show ?thesis using False Cons.IH [of "[]" G] by (simp add: maximal_runs_skip)
    next
      case nonempty: False
      have "maximal_runs P (t @ x # xs) = t # maximal_runs P (x # xs)"
        using maximal_runs_run [of t P "x # xs"] nonempty Cons.prems False by simp
      then show ?thesis
        using False nonempty Cons.IH [of "[]" "G @ [t]"] by (simp add: maximal_runs_skip)
    qed
  qed
qed

lemma find_free_blocks_runs:
  "find_free_blocks cfg frame day = maximal_runs (is_free frame day) (slot_keys cfg)"
  by (simp add: find_free_blocks_def scan_slots_runs)

lemma maximal_runs_Cons:
  assumes "dropWhile (\<lambda>x. \<not> P x) xs = y # ys"
  shows "maximal_runs P xs = (y # takeWhile P ys) # maximal_runs P (dropWhile P ys)"
    and "P y"
    and "takeWhile (\<lambda>x. \<not> P x) xs @ (y # takeWhile P ys) @ dropWhile P ys = xs"
proof -
  show py: "P y" using hd_dropWhile [of "\<lambda>x. \<not> P x" xs] assms by simp
  show "maximal_runs P xs = (y # takeWhile P ys) # maximal_runs P (dropWhile P ys)"
    by (subst maximal_runs.simps) (simp add: assms py)
  have "takeWhile (\<lambda>x. \<not> P x) xs @ (y # ys) = xs"
    using takeWhile_dropWhile_id [of "\<lambda>x. \<not> P x" xs] by (simp only: assms)
  moreover have "(y # takeWhile P ys) @ dropWhile P ys = y # ys"
    by simp
  ultimately show "takeWhile (\<lambda>x. \<not> P x) xs @ (y # takeWhile P ys) @ dropWhile P ys = xs"
    by (simp only:)
qed

lemma maximal_runs_empty:
  assumes "dropWhile (\<lambda>x. \<not> P x) xs = []"
  shows "maximal_runs P xs = []"
  by (subst maximal_runs.simps) (simp add: assms)

lemma maximal_runs_groups:
  "g \<in> set (maximal_runs P xs) \<Longrightarrow> g \<noteq> [] \<and> (\<forall>s\<in>set g. P s)"
proof (induction P xs rule: maximal_runs.induct)
  case (1 P xs)
  show ?case
  proof (cases "dropWhile (\<lambda>x. \<not> P x) xs")
    case Nil
    then show ?thesis using "1.prems" by (simp add: maximal_runs_empty)
  next
    case (Cons y ys)
    from "1.prems" maximal_runs_Cons(1) [OF Cons]
    have "g = y # takeWhile P ys \<or> g \<in> set (maximal_runs P (dropWhile P ys))" by simp
    then show ?thesis
    proof
      assume "g = y # takeWhile P ys"
      then show ?thesis using maximal_runs_Cons(2) [OF Cons] by (auto dest: set_takeWhileD)
    next
      assume "g \<in> set (maximal_runs P (dropWhile P ys))"
      then show ?thesis by (rule "1.IH" [OF Cons])
    qed
  qed
qed

lemma filter_takeWhile_dropWhile:
  "filter P ys = takeWhile P ys @ filter P (dropWhile P ys)"
  by (induction ys) auto

lemma maximal_runs_concat: "concat (maximal_runs P xs) = filter P xs"
proof (induction P xs rule: maximal_runs.induct)
  case (1 P xs)
  show ?case
  proof (cases "dropWhile (\<lambda>x. \<not> P x) xs")
    case Nil
    then have "\<forall>x\<in>set xs. \<not> P x" by (simp add: dropWhile_eq_Nil_conv)
    then have "filter P xs = []" by (simp add: filter_empty_conv)
    then show ?thesis using Nil by (simp add: maximal_runs_empty)
  next
    case (Cons y ys)
    have skip: "filter P (takeWhile (\<lambda>x. \<not> P x) xs) = []"
      by (auto simp: filter_empty_conv dest: set_takeWhileD)
    have "filter P xs =
        filter P (takeWhile (\<lambda>x. \<not> P x) xs @ (y # takeWhile P ys) @ dropWhile P ys)"
      by (simp only: maximal_runs_Cons(3) [OF Cons])
    also have "\<dots> = (y # takeWhile P ys) @ filter P (dropWhile P ys)"
      using maximal_runs_Cons(2) [OF Cons] filter_takeWhile_dropWhile [of P ys]
      by (simp add: skip)
    finally show ?thesis
      using "1.IH" [OF Cons] by (simp add: maximal_runs_Cons(1) [OF Cons])
  qed
qed

lemma maximal_runs_position:
  "i < length (maximal_runs P xs) \<Longrightarrow>
   \<exists>pre post. xs = pre @ maximal_runs P xs ! i @ post \<and>
     (pre = [] \<or> \<not> P (last pre)) \<and> (post = [] \<or> \<not> P (hd post)) \<and>
     filter P pre = concat (take i (maximal_runs P xs))"
proof (induction P xs arbitrary: i rule: maximal_runs.induct)
  case (1 P xs)
  show ?case
  proof (cases "dropWhile (\<lambda>x. \<not> P x) xs")
    case Nil
    then have "maximal_runs P xs = []" by (rule maximal_runs_empty)
    then show ?thesis using "1.prems" by simp
  next
    case (Cons y ys)
    let ?skip = "takeWhile (\<lambda>x. \<not> P x) xs"
    let ?g = "y # takeWhile P ys"
    let ?rest = "dropWhile P ys"
    note eq = maximal_runs_Cons(1) [OF Cons]
    note py = maximal_runs_Cons(2) [OF Cons]
    note split = maximal_runs_Cons(3) [OF Cons]
    have skip_none: "filter P ?skip = []"
      by (auto simp: filter_empty_conv dest: set_takeWhileD)
    have skip_last: "?skip = [] \<or> \<not> P (last ?skip)"
    proof (cases "?skip = []")
      case False
      then have "last ?skip \<in> set ?skip" by (rule last_in_set)
      then show ?thesis by (auto dest: set_takeWhileD)
    qed simp
    have rest_hd: "?rest = [] \<or> \<not> P (hd ?rest)"
      using hd_dropWhile [of P ys] by blast
    show ?thesis
    proof (cases i)
      case 0
      have g0: "maximal_runs P xs ! i = ?g"
        using 0 eq by simp
      have "xs = ?skip @ maximal_runs P xs ! i @ ?rest"
        by (simp only: g0 split)
      moreover have "filter P ?skip = concat (take i (maximal_runs P xs))"
        using 0 skip_none by simp
      ultimately show ?thesis using skip_last rest_hd by blast
    next
      case (Suc j)
      then have j: "j < length (maximal_runs P ?rest)" using "1.prems" eq by simp
      have gi: "maximal_runs P xs ! i = maximal_runs P ?rest ! j"
        using Suc eq by simp
      let ?gj = "maximal_runs P ?rest ! j"
      from "1.IH" [OF Cons j] obtain pre post where
        r: "pre @ ?gj @ post = ?rest"
        and pre: "pre = [] \<or> \<not> P (last pre)"
        and post: "post = [] \<or> \<not> P (hd post)"
        and fl: "filter P pre = concat (take j (maximal_runs P ?rest))"
        by metis
      have "?gj \<in> set (maximal_runs P ?rest)" using j by (rule nth_mem)
      then have gj: "?gj \<noteq> [] \<and> (\<forall>s\<in>set ?gj. P s)"
        by (rule maximal_runs_groups)
      have pre_ne: "pre \<noteq> []"
      proof
        assume "pre = []"
        then have "?gj @ post = ?rest" using r by (metis append_Nil)
        then have "?rest \<noteq> []" and "hd ?rest = hd ?gj"
          using gj by (metis append_is_Nil_conv, metis hd_append2)
        moreover have "P (hd ?gj)" using gj by (metis hd_in_set)
        ultimately show False using rest_hd by metis
      qed
      have run: "filter P (takeWhile P ys) = takeWhile P ys"
        by (auto simp: filter_id_conv dest: set_takeWhileD)
      let ?pre = "?skip @ ?g @ pre"
      have "?pre @ ?gj @ post = ?skip @ ?g @ (pre @ ?gj @ post)"
        by simp
      also have "\<dots> = ?skip @ ?g @ ?rest"
        by (simp only: r)
      also have "\<dots> = xs"
        by (rule split)
      finally have "xs = ?pre @ maximal_runs P xs ! i @ post"
        by (simp only: gi)
      moreover have "?pre = [] \<or> \<not> P (last ?pre)"
        using pre pre_ne by simp
      moreover have "filter P ?pre = concat (take i (maximal_runs P xs))"
        using Suc eq fl py by (simp add: skip_none run)
      ultimately show ?thesis using post by blast
    qed
  qed
qed

section \<open>What one placement does to the state\<close>

lemma free_block_slots:
  "g \<in> set (find_free_blocks cfg frame day) \<Longrightarrow> s \<in> set g \<Longrightarrow> is_free frame day s"
  using maximal_runs_groups [of g "is_free frame day" "slot_keys cfg"]
  by (simp add: find_free_blocks_runs)

lemma fill_group_subset: "set (fill_group td d g acc) \<subseteq> set g"
  by (induction g arbitrary: acc) auto

lemma write_slots_None: "write_slots frame day slots None = frame"
  by (induction slots arbitrary: frame) auto

lemma write_slots_Some:
  "write_slots frame day slots (Some v) d s =
     (if d = day \<and> s \<in> set slots then v else frame d s)"
  by (induction slots arbitrary: frame) (auto simp: set_cell_def)

lemma write_slots_other:
  "d \<noteq> day \<or> s \<notin> set slots \<Longrightarrow> write_slots frame day slots tag d s = frame d s"
  by (cases tag) (auto simp: write_slots_None write_slots_Some)

lemma write_slots_changed:
  "write_slots frame day slots tag d s \<noteq> frame d s \<Longrightarrow> d = day \<and> s \<in> set slots"
  using write_slots_other [of d day s slots frame tag] by blast

lemma found_block:
  assumes "List.find (fits cfg dur) (find_free_blocks cfg frame day) = Some g"
  shows "set (fill_group td dur g acc) \<subseteq> {s. is_free frame day s}"
proof -
  have "g \<in> set (find_free_blocks cfg frame day)"
    using assms by (auto simp: find_Some_iff)
  then show ?thesis
    using fill_group_subset [of td dur g acc] free_block_slots [of g cfg frame day] by auto
qed

lemma resolve_room_frame:
  "resolve_room cfg st code ty = (st1, r) \<Longrightarrow>
     tt_frame st1 = tt_frame st \<and> faculty_schedule st1 = faculty_schedule st"
  by (auto simp: resolve_room_def split: option.splits if_splits)

lemma resolve_room_None:
  "resolve_room cfg st code ty = (st1, None) \<Longrightarrow>
     room_allocations st1 = room_allocations st \<and> draws st1 = draws st \<and>
     room_allocations st code = None \<and>
     (if ty = ''P'' then labs cfg = [] else classrooms cfg = [])"
  by (auto simp: resolve_room_def split: option.splits if_splits)


lemma choice_member: "xs \<noteq> [] \<Longrightarrow> choice cfg n xs \<in> set xs"
  by (simp add: choice_def)

lemma first_binding_from_pool:
  "room_allocations st code = None \<Longrightarrow> resolve_room cfg st code ty = (st1, Some r) \<Longrightarrow>
     r \<in> set (if ty = ''P'' then labs cfg else classrooms cfg)"
  by (auto simp: resolve_room_def choice_member split: if_splits)

lemma place_session_frame:
  "tt_frame (snd (place_session cfg st day faculty code dur ty el)) d s \<noteq> tt_frame st d s \<Longrightarrow>
     d = day \<and> is_free (tt_frame st) day s \<and> fst (place_session cfg st day faculty code dur ty el)"
proof -
  assume a: "tt_frame (snd (place_session cfg st day faculty code dur ty el)) d s \<noteq> tt_frame st d s"
  show ?thesis
  proof (cases "List.find (fits cfg dur) (find_free_blocks cfg (tt_frame st) day)")
    case None
    then show ?thesis using a by (simp add: place_session_def)
  next
    case (Some g)
    note sub = found_block [OF Some, of "time_durations cfg" 0]
    show ?thesis
    proof (cases el)
      case True
      then show ?thesis using a Some sub
        by (auto simp: place_session_def Let_def record_faculty_def
                 split: if_splits dest!: write_slots_changed)
    next
      case False
      obtain st1 r where rr: "resolve_room cfg st code ty = (st1, r)" by (cases "resolve_room cfg st code ty")
      note fr = resolve_room_frame [OF rr]
      show ?thesis
      proof (cases r)
        case None
        then show ?thesis using a Some False rr fr by (simp add: place_session_def Let_def)
      next
        case (Some room)
        then show ?thesis using a \<open>List.find (fits cfg dur) (find_free_blocks cfg (tt_frame st) day) = Some g\<close> False rr fr sub
          by (auto simp: place_session_def Let_def record_faculty_def
                   split: if_splits dest!: write_slots_changed)
      qed
    qed
  qed
qed

lemma resolve_room_None_printed:
  "resolve_room cfg st code ty = (st1, None) \<Longrightarrow>
     tt_frame st1 = tt_frame st \<and> faculty_schedule st1 = faculty_schedule st \<and>
     room_allocations st1 = room_allocations st \<and> draws st1 = draws st"
  by (auto simp: resolve_room_def split: option.splits if_splits)

lemma resolve_room_fails:
  "(\<exists>st1. resolve_room cfg st code ty = (st1, None)) =
     (room_allocations st code = None \<and> (if ty = ''P'' then labs cfg = [] else classrooms cfg = []))"
  by (auto simp: resolve_room_def split: option.splits if_splits)

lemma place_session_cases [case_names no_block elective no_room room]:
  obtains
    (no_block) "List.find (fits cfg dur) (find_free_blocks cfg (tt_frame st) day) = None"
      and "place_session cfg st day faculty code dur ty el = (False, st)"
  | (elective) g where "el"
      and "List.find (fits cfg dur) (find_free_blocks cfg (tt_frame st) day) = Some g"
      and "place_session cfg st day faculty code dur ty el =
        (True, record_faculty
           (st\<lparr>tt_frame := write_slots (tt_frame st) day
                   (fill_group (time_durations cfg) dur g 0) (occupant_tag ty code [] True)\<rparr>)
           day faculty)"
  | (no_room) g st1 where "\<not> el"
      and "List.find (fits cfg dur) (find_free_blocks cfg (tt_frame st) day) = Some g"
      and "resolve_room cfg st code ty = (st1, None)"
      and "place_session cfg st day faculty code dur ty el = (False, st1)"
  | (room) g st1 room where "\<not> el"
      and "List.find (fits cfg dur) (find_free_blocks cfg (tt_frame st) day) = Some g"
      and "resolve_room cfg st code ty = (st1, Some room)"
      and "place_session cfg st day faculty code dur ty el =
        (True, record_faculty
           (st1\<lparr>tt_frame := write_slots (tt_frame st) day
                   (fill_group (time_durations cfg) dur g 0) (occupant_tag ty code room False)\<rparr>)
           day faculty)"
proof (cases "List.find (fits cfg dur) (find_free_blocks cfg (tt_frame st) day)")
  case None
  then show ?thesis using no_block by (simp add: place_session_def)
next
  case (Some g)
  show ?thesis
  proof (cases el)
    case True
    then show ?thesis using elective [of g] Some by (simp add: place_session_def Let_def)
  next
    case False
    obtain st1 r where rr: "resolve_room cfg st code ty = (st1, r)"
      by (cases "resolve_room cfg st code ty")
    show ?thesis
    proof (cases r)
      case None
      then show ?thesis using no_room [of g st1] Some False rr
        by (simp add: place_session_def Let_def)
    next
      case (Some room)
      have "tt_frame st1 = tt_frame st" using resolve_room_frame [OF rr] by simp
      then show ?thesis
        using room [of g st1 room] \<open>List.find (fits cfg dur) (find_free_blocks cfg (tt_frame st) day) = Some g\<close> False rr Some
        by (simp add: place_session_def Let_def)
    qed
  qed
qed

lemma place_session_faculty:
  "faculty_schedule (snd (place_session cfg st day faculty code dur ty el)) =
     (if fst (place_session cfg st day faculty code dur ty el) \<and> faculty \<noteq> []
      then (faculty_schedule st)(day := faculty_schedule st day @ [faculty])
      else faculty_schedule st)"
proof (cases rule: place_session_cases [where cfg=cfg and dur=dur and st=st and day=day and faculty=faculty and code=code and ty=ty and el=el])
  case no_block
  then show ?thesis by simp
next
  case (elective g)
  then show ?thesis by (simp add: record_faculty_def)
next
  case (no_room g st1)
  then show ?thesis using resolve_room_None_printed [of cfg st code ty st1] by simp
next
  case (room g st1 room)
  then show ?thesis using resolve_room_frame [of cfg st code ty st1 "Some room"]
    by (simp add: record_faculty_def)
qed


lemma place_session_fail:
  assumes a: "\<not> fst (place_session cfg st day faculty code dur ty el)"
  shows "tt_frame (snd (place_session cfg st day faculty code dur ty el)) = tt_frame st \<and>
     faculty_schedule (snd (place_session cfg st day faculty code dur ty el)) = faculty_schedule st \<and>
     room_allocations (snd (place_session cfg st day faculty code dur ty el)) = room_allocations st \<and>
     draws (snd (place_session cfg st day faculty code dur ty el)) = draws st"
proof (cases rule: place_session_cases [where cfg=cfg and dur=dur and st=st and day=day and faculty=faculty and code=code and ty=ty and el=el])
  case (no_room g st1)
  then show ?thesis using resolve_room_None_printed [of cfg st code ty st1] by simp
qed (use a in simp_all)

lemma place_session_fail_iff:
  "(\<not> fst (place_session cfg st day faculty code dur ty el)) =
     (List.find (fits cfg dur) (find_free_blocks cfg (tt_frame st) day) = None \<or>
      (\<not> el \<and> room_allocations st code = None \<and>
       (if ty = ''P'' then labs cfg = [] else classrooms cfg = [])))"
proof (cases rule: place_session_cases [where cfg=cfg and dur=dur and st=st and day=day and faculty=faculty and code=code and ty=ty and el=el])
  case no_block
  then show ?thesis by simp
next
  case (elective g)
  then show ?thesis by simp
next
  case (no_room g st1)
  then show ?thesis using resolve_room_fails [of cfg st code ty] by auto
next
  case (room g st1 room)
  then show ?thesis using resolve_room_fails [of cfg st code ty] by auto
qed

lemma place_session_elective:
  "room_allocations (snd (place_session cfg st day faculty code dur ty True)) = room_allocations st \<and>
   draws (snd (place_session cfg st day faculty code dur ty True)) = draws st \<and>
   printed (snd (place_session cfg st day faculty code dur ty True)) = printed st \<and>
   fst (place_session cfg st day faculty code dur ty True) =
     (List.find (fits cfg dur) (find_free_blocks cfg (tt_frame st) day) \<noteq> None)"
proof (cases rule: place_session_cases [where cfg=cfg and dur=dur and st=st and day=day and faculty=faculty and code=code and ty=ty and el=True])
  case no_block
  then show ?thesis by simp
next
  case (elective g)
  then show ?thesis by (simp add: record_faculty_def)
qed simp_all

lemma fits_pools: "fits (cfg\<lparr>classrooms := cs, labs := ls\<rparr>) = fits cfg"
  by (simp add: fits_def fun_eq_iff)

lemma place_session_elective_pools:
  "place_session (cfg\<lparr>classrooms := cs, labs := ls\<rparr>) st day faculty code dur ty True =
   place_session cfg st day faculty code dur ty True"
  by (simp add: place_session_def Let_def find_free_blocks_def fits_pools split: option.splits)


section \<open>Invariants of the scheduling loops\<close>

lemma day_loop_skip:
  "remaining \<le> 0 \<or> (faculty \<noteq> [] \<and> faculty \<in> set (faculty_schedule st day)) \<Longrightarrow>
   day_loop cfg faculty code el ty (day # days) st remaining =
   day_loop cfg faculty code el ty days st remaining"
  by auto

lemma day_loop_placed:
  "\<not> (remaining \<le> 0 \<or> (faculty \<noteq> [] \<and> faculty \<in> set (faculty_schedule st day))) \<Longrightarrow>
   fst (place_session cfg st day faculty code (alloc_hours ty remaining) (session_code ty) el) \<Longrightarrow>
   day_loop cfg faculty code el ty (day # days) st remaining =
     (snd (place_session cfg st day faculty code (alloc_hours ty remaining) (session_code ty) el),
      remaining - alloc_hours ty remaining)"
  by (auto simp: case_prod_unfold)

lemma day_loop_failed:
  "\<not> (remaining \<le> 0 \<or> (faculty \<noteq> [] \<and> faculty \<in> set (faculty_schedule st day))) \<Longrightarrow>
   \<not> fst (place_session cfg st day faculty code (alloc_hours ty remaining) (session_code ty) el) \<Longrightarrow>
   day_loop cfg faculty code el ty (day # days) st remaining =
     day_loop cfg faculty code el ty days
       (snd (place_session cfg st day faculty code (alloc_hours ty remaining) (session_code ty) el))
       remaining"
  by (auto simp: case_prod_unfold)

lemma day_loop_inv:
  assumes step: "\<And>st day dur. I st \<Longrightarrow>
      \<not> (faculty \<noteq> [] \<and> faculty \<in> set (faculty_schedule st day)) \<Longrightarrow>
      I (snd (place_session cfg st day faculty code dur (session_code ty) el))"
    and init: "I st"
  shows "I (fst (day_loop cfg faculty code el ty days st remaining))"
  using init
proof (induction days arbitrary: st)
  case Nil
  then show ?case by simp
next
  case (Cons day days)
  show ?case
  proof (cases "remaining \<le> 0 \<or> (faculty \<noteq> [] \<and> faculty \<in> set (faculty_schedule st day))")
    case True
    then show ?thesis using Cons.IH [OF Cons.prems] by (simp only: day_loop_skip)
  next
    case False
    let ?p = "place_session cfg st day faculty code (alloc_hours ty remaining) (session_code ty) el"
    have i: "I (snd ?p)" using step [OF Cons.prems] False by blast
    show ?thesis
    proof (cases "fst ?p")
      case True
      then show ?thesis using i by (simp only: day_loop_placed [OF False True] fst_conv)
    next
      case nf: False
      then show ?thesis using Cons.IH [OF i] by (simp only: day_loop_failed [OF False nf])
    qed
  qed
qed

lemma pass_loop_continue:
  assumes "0 < remaining \<and> attempts < MAX_ATTEMPTS"
  shows "pass_loop cfg faculty code el ty st remaining attempts =
     pass_loop cfg faculty code el ty
       (fst (day_loop cfg faculty code el ty week_days st remaining))
       (snd (day_loop cfg faculty code el ty week_days st remaining)) (attempts + 1)"
  by (subst pass_loop.simps) (simp only: assms simp_thms if_True)

lemma pass_loop_stop:
  assumes "\<not> (0 < remaining \<and> attempts < MAX_ATTEMPTS)"
  shows "pass_loop cfg faculty code el ty st remaining attempts = (st, remaining, attempts)"
  by (subst pass_loop.simps) (simp only: assms simp_thms if_False)

lemma pass_loop_inv:
  assumes step: "\<And>st day dur. I st \<Longrightarrow>
      \<not> (faculty \<noteq> [] \<and> faculty \<in> set (faculty_schedule st day)) \<Longrightarrow>
      I (snd (place_session cfg st day faculty code dur (session_code ty) el))"
    and init: "I st"
  shows "I (fst (pass_loop cfg faculty code el ty st remaining attempts))"
  using assms
proof (induction cfg faculty code el ty st remaining attempts rule: pass_loop.induct)
  case (1 cfg faculty code el ty st remaining attempts)
  show ?case
  proof (cases "0 < remaining \<and> attempts < MAX_ATTEMPTS")
    case True
    have "I (fst (day_loop cfg faculty code el ty week_days st remaining))"
      using day_loop_inv [where I=I, OF "1.prems"(1) "1.prems"(2)] by blast
    then have "I (fst (pass_loop cfg faculty code el ty
          (fst (day_loop cfg faculty code el ty week_days st remaining))
          (snd (day_loop cfg faculty code el ty week_days st remaining)) (attempts + 1)))"
      using "1.IH" [OF True "1.prems"(1)] by blast
    then show ?thesis by (simp only: pass_loop_continue [OF True])
  next
    case False
    then show ?thesis using "1.prems"(2) by (simp only: pass_loop_stop [OF False] fst_conv)
  qed
qed

lemma schedule_course_inv:
  assumes step: "\<And>st day faculty code dur ty el. I st \<Longrightarrow>
      \<not> (faculty \<noteq> [] \<and> faculty \<in> set (faculty_schedule st day)) \<Longrightarrow>
      I (snd (place_session cfg st day faculty code dur ty el))"
    and init: "I st"
  shows "I (schedule_course cfg c st)"
proof -
  have sess: "I (schedule_session cfg faculty code el ty hours st')" if "I st'"
    for faculty code el ty hours st'
    unfolding schedule_session_def
    by (rule pass_loop_inv [where I=I]) (use step that in blast)+
  show ?thesis
    using init sess by (auto simp: schedule_course_def Let_def split: option.splits)
qed

lemma fold_schedule_course_inv:
  assumes step: "\<And>st day faculty code dur ty el. I st \<Longrightarrow>
      \<not> (faculty \<noteq> [] \<and> faculty \<in> set (faculty_schedule st day)) \<Longrightarrow>
      I (snd (place_session cfg st day faculty code dur ty el))"
    and init: "I st"
  shows "I (fold (schedule_course cfg) cs st)"
  using init
proof (induction cs arbitrary: st)
  case Nil
  then show ?case by simp
next
  case (Cons c cs)
  have "I (schedule_course cfg c st)"
    by (rule schedule_course_inv [where I=I]) (use step Cons.prems in blast)+
  then show ?case using Cons.IH by simp
qed

lemma place_session_cell:
  assumes "v \<noteq> [] \<or> s \<in> set excluded_slots" and "tt_frame st d s = v"
  shows "tt_frame (snd (place_session cfg st day faculty code dur ty el)) d s = v"
proof (rule ccontr)
  assume "tt_frame (snd (place_session cfg st day faculty code dur ty el)) d s \<noteq> v"
  then have "tt_frame (snd (place_session cfg st day faculty code dur ty el)) d s \<noteq> tt_frame st d s"
    using assms(2) by simp
  then have "d = day \<and> is_free (tt_frame st) day s" using place_session_frame by blast
  then show False using assms by (auto simp: is_free_def)
qed

lemma place_session_distinct:
  assumes "\<forall>d. distinct (faculty_schedule st d)"
    and "\<not> (faculty \<noteq> [] \<and> faculty \<in> set (faculty_schedule st day))"
  shows "\<forall>d. distinct (faculty_schedule (snd (place_session cfg st day faculty code dur ty el)) d)"
  using assms by (auto simp: place_session_faculty)

lemma run_cell:
  assumes "v \<noteq> [] \<or> s \<in> set excluded_slots" and "tt_frame st d s = v"
  shows "tt_frame (fold (schedule_course cfg) cs st) d s = v"
  by (rule fold_schedule_course_inv [where I="\<lambda>st. tt_frame st d s = v"])
     (use assms place_session_cell in blast)+


lemma run_distinct:
  assumes "\<forall>d. distinct (faculty_schedule st d)"
  shows "\<forall>d. distinct (faculty_schedule (fold (schedule_course cfg) cs st) d)"
  by (rule fold_schedule_course_inv [where I="\<lambda>st. \<forall>d. distinct (faculty_schedule st d)"])
     (use assms place_session_distinct in blast)+

lemma fold_clear_slot:
  "fold (clear_slot columns day) slots frame d s =
     (if d = day \<and> s \<in> set slots \<and> s \<in> set columns then [] else frame d s)"
  by (induction slots arbitrary: frame) (auto simp: clear_slot_def set_cell_def)

lemma fold_clear_days:
  "fold (\<lambda>day fr. fold (clear_slot columns day) slots fr) days frame d s =
     (if d \<in> set days \<and> s \<in> set slots \<and> s \<in> set columns then [] else frame d s)"
  by (induction days arbitrary: frame) (auto simp: fold_clear_slot)

lemma clear_excluded_cell:
  "clear_excluded columns frame d s =
     (if d \<in> set week_days \<and> s \<in> set excluded_slots \<and> s \<in> set columns then [] else frame d s)"
  by (simp only: clear_excluded_def fold_clear_days)

lemma create_timetable_fields:
  "tt_frame (create_timetable cfg course_list ra k) =
     clear_excluded (slot_keys cfg)
       (tt_frame (fold (schedule_course cfg) (fst (select_courses cfg course_list k))
                    (initial_state (snd (select_courses cfg course_list k)))))"
  "faculty_schedule (create_timetable cfg course_list ra k) =
     faculty_schedule (fold (schedule_course cfg) (fst (select_courses cfg course_list k))
                         (initial_state (snd (select_courses cfg course_list k))))"
  "room_allocations (create_timetable cfg course_list ra k) =
     room_allocations (fold (schedule_course cfg) (fst (select_courses cfg course_list k))
                         (initial_state (snd (select_courses cfg course_list k))))"
  by (simp_all add: create_timetable_def Let_def)

lemma create_timetable_excluded:
  assumes "s \<in> set excluded_slots"
  shows "tt_frame (create_timetable cfg course_list ra k) d s = []"
proof -
  let ?cs = "fst (select_courses cfg course_list k)"
  let ?n = "snd (select_courses cfg course_list k)"
  have "tt_frame (initial_state ?n) d s = []" by (simp add: initial_state_def)
  then have "tt_frame (fold (schedule_course cfg) ?cs (initial_state ?n)) d s = []"
    using run_cell [of "[]" s "initial_state ?n" d cfg ?cs] assms by blast
  then show ?thesis by (simp add: create_timetable_fields(1) clear_excluded_cell)
qed

lemma create_timetable_distinct:
  "distinct (faculty_schedule (create_timetable cfg course_list ra k) d)"
proof -
  let ?cs = "fst (select_courses cfg course_list k)"
  let ?n = "snd (select_courses cfg course_list k)"
  have "\<forall>d. distinct (faculty_schedule (initial_state ?n) d)" by (simp add: initial_state_def)
  then show ?thesis
    using run_distinct [of "initial_state ?n" cfg ?cs] by (simp add: create_timetable_fields(2))
qed

lemma day_loop_busy:
  assumes "faculty \<noteq> []" and "\<forall>d\<in>set days. faculty \<in> set (faculty_schedule st d)"
  shows "day_loop cfg faculty code el ty days st remaining = (st, remaining)"
  using assms(2) by (induction days) (use assms(1) in auto)

lemma pass_loop_attempts:
  "attempts \<le> MAX_ATTEMPTS \<Longrightarrow>
   snd (snd (pass_loop cfg faculty code el ty st remaining attempts)) \<le> MAX_ATTEMPTS"
proof (induction cfg faculty code el ty st remaining attempts rule: pass_loop.induct)
  case (1 cfg faculty code el ty st remaining attempts)
  show ?case
  proof (cases "0 < remaining \<and> attempts < MAX_ATTEMPTS")
    case True
    then have "attempts + 1 \<le> MAX_ATTEMPTS" by simp
    then show ?thesis using "1.IH" [OF True] by (simp only: pass_loop_continue [OF True])
  next
    case False
    then show ?thesis using "1.prems" by (simp only: pass_loop_stop [OF False] snd_conv)
  qed
qed

lemma pass_loop_busy:
  assumes "faculty \<noteq> []" and "\<forall>d\<in>set week_days. faculty \<in> set (faculty_schedule st d)"
    and "0 < remaining"
  shows "attempts \<le> MAX_ATTEMPTS \<Longrightarrow>
    pass_loop cfg faculty code el ty st remaining attempts = (st, remaining, MAX_ATTEMPTS)"
proof (induction "MAX_ATTEMPTS - attempts" arbitrary: attempts)
  case 0
  then have "\<not> (0 < remaining \<and> attempts < MAX_ATTEMPTS)" by simp
  then show ?case using 0 by (simp add: pass_loop_stop)
next
  case (Suc k)
  then have c: "0 < remaining \<and> attempts < MAX_ATTEMPTS" using assms(3) by simp
  have d: "day_loop cfg faculty code el ty week_days st remaining = (st, remaining)"
    by (rule day_loop_busy [OF assms(1,2)])
  have "pass_loop cfg faculty code el ty st remaining (attempts + 1) = (st, remaining, MAX_ATTEMPTS)"
    using Suc by simp
  then show ?case by (simp add: pass_loop_continue [OF c] d)
qed

section \<open>The end-to-end scenario, evaluated\<close>

lemmas eval_defs = calc_slot_duration_def hm_def py_int_def strip_def is_space_def dec_value_def is_digit_def digit_val_def

lemma scenario_durations:
  "loaded_durations ''08:00-09:00'' = 1"
  "loaded_durations ''09:00-10:00'' = 1"
  "loaded_durations ''10:00-11:00'' = 1"
  by (simp_all add: loaded_durations_def eval_defs)

lemmas place_defs = place_session_def find_free_blocks_def is_free_def excluded_slots_def
  fits_def resolve_room_def choice_def occupant_tag_def set_cell_def record_faculty_def
  scenario_config_def scenario_slots_def scenario_durations Let_def

lemma first_pass:
  "day_loop (scenario_config [''R1''] ls rs) ''X'' ''CODE'' False Lecture week_days (initial_state n) 2 =
    (after_first_pass n, 1 / 2)"
  by (simp add: week_days_def initial_state_def after_first_pass_def place_defs)

lemma second_pass:
  "day_loop (scenario_config [''R1''] ls rs) ''X'' ''CODE'' False Lecture week_days
     (after_first_pass n) (1 / 2) =
    (after_lectures n, 0)"
  by (simp add: week_days_def after_first_pass_def after_lectures_def place_defs)

lemma lecture_loop:
  "pass_loop (scenario_config [''R1''] ls rs) ''X'' ''CODE'' False Lecture (initial_state n) 2 0 =
    (after_lectures n, 0, 2)"
  by (simp add: pass_loop_continue pass_loop_stop MAX_ATTEMPTS_def first_pass second_pass)

lemma parse_lectures_only: "parse_ltpsc ''2-0-0-0-2'' = Some (2, 0, 0)"
  by (simp add: parse_ltpsc_def py_int_def strip_def is_space_def dec_value_def is_digit_def digit_val_def)

lemma scenario_course_fields:
  "Elective (scenario_course l) = ''0''"
  "Course_Code (scenario_course l) = ''CODE''"
  "Faculty (scenario_course l) = ''X''"
  "LTPSC (scenario_course l) = l"
  by (simp_all add: scenario_course_def)

lemma scenario_clear: "clear_excluded (slot_keys (scenario_config cs ls rs)) frame = frame"
  by (auto simp add: fun_eq_iff clear_excluded_cell scenario_config_def scenario_slots_def excluded_slots_def)

lemma scenario_schedule:
  "schedule_course (scenario_config [''R1''] ls rs) (scenario_course ''2-0-0-0-2'') (initial_state n) =
    after_lectures n"
  by (simp add: schedule_course_def scenario_course_fields schedule_session_def parse_lectures_only strip_def
        is_space_def lecture_loop pass_loop_stop Let_def)

lemma full_run:
  "create_timetable (scenario_config [''R1''] ls rs) [scenario_course ''2-0-0-0-2''] ra n =
    after_lectures n"
  by (simp add: create_timetable_def select_courses_def scenario_course_fields scenario_schedule
        scenario_clear Let_def)

lemma parse_lectures_and_practical: "parse_ltpsc ''2-0-2-0-3'' = Some (2, 0, 2)"
  by (simp add: parse_ltpsc_def py_int_def strip_def is_space_def dec_value_def is_digit_def digit_val_def)

lemma practical_pass:
  "day_loop (scenario_config [''R1''] [''L1''] rs) ''X'' ''CODE'' False Practical week_days
     (after_lectures n) 2 =
   (after_practical n, 0)"
  by (simp add: week_days_def after_lectures_def after_practical_def place_defs)

lemma practical_loop:
  "pass_loop (scenario_config [''R1''] [''L1''] rs) ''X'' ''CODE'' False Practical
     (after_lectures n) 2 0 = (after_practical n, 0, 1)"
  by (simp add: pass_loop_continue pass_loop_stop MAX_ATTEMPTS_def practical_pass)

lemma practical_schedule:
  "schedule_course (scenario_config [''R1''] [''L1''] rs) (scenario_course ''2-0-2-0-3'') (initial_state n) =
   after_practical n"
  by (simp add: schedule_course_def scenario_course_fields schedule_session_def parse_lectures_and_practical strip_def
        is_space_def lecture_loop practical_loop pass_loop_stop Let_def)

text \<open>
  Claim C1 asks that a practical session's room is drawn from the lab pool. The room is
  looked up by course code alone (line 90), so a practical of a course whose lecture was
  placed first inherits the lecture's classroom: with classrooms \<open>[R1]\<close>, labs \<open>[L1]\<close> and
  one course \<open>2-0-2-0-3\<close>, the practical is written on Wednesday as \<open>CODE (Lab-R1)\<close>,
  and R1 is a classroom, not a lab. A course with no room yet does draw from the pool of
  its session type (\<open>first_binding_from_pool\<close>).
\<close>
theorem lab_session_in_classroom:
  "tt_frame (create_timetable (scenario_config [''R1''] [''L1''] rs)
               [scenario_course ''2-0-2-0-3''] ra n) ''Wednesday'' ''08:00-09:00'' = ''CODE (Lab-R1)'' \<and>
   occupant_tag ''P'' ''CODE'' ''R1'' False = Some ''CODE (Lab-R1)'' \<and>
   ''R1'' \<notin> set (labs (scenario_config [''R1''] [''L1''] rs)) \<and>
   ''R1'' \<in> set (classrooms (scenario_config [''R1''] [''L1''] rs))"
  by (simp add: create_timetable_def select_courses_def scenario_course_fields practical_schedule
        scenario_clear Let_def occupant_tag_def after_practical_def)
     (simp add: scenario_config_def)

text \<open>
  Claim C2 as stated has no lecture hours remaining after one pass. The first pass asks
  for \<open>min(1.5, 2) = 1.5\<close> hours and subtracts what it asked for: half an hour remains.
\<close>
theorem scenario_one_pass_counterexample:
  "snd (day_loop (scenario_config [''R1''] [] (\<lambda>n. 0)) ''X'' ''CODE'' False Lecture week_days
          (initial_state 0) 2) = 1 / 2 \<and>
   snd (day_loop (scenario_config [''R1''] [] (\<lambda>n. 0)) ''X'' ''CODE'' False Lecture week_days
          (initial_state 0) 2) \<noteq> 0"
  by (simp add: first_pass)

text \<open>
  Claim C2, as amended. In the scenario the first pass fills Monday's first two slots,
  each tagged \<open>CODE (R1)\<close>, leaves Monday's third slot empty and leaves half an hour to
  place; the second pass places it in Tuesday's first slot; the loop ends after two passes
  with no hours remaining, and the emitted grid holds these three cells and nothing else.
\<close>
theorem scenario_two_passes:
  "day_loop (scenario_config [''R1''] [] rs) ''X'' ''CODE'' False Lecture week_days (initial_state n) 2 =
     (after_first_pass n, 1 / 2) \<and>
   tt_frame (after_first_pass n) ''Monday'' ''08:00-09:00'' = ''CODE (R1)'' \<and>
   tt_frame (after_first_pass n) ''Monday'' ''09:00-10:00'' = ''CODE (R1)'' \<and>
   tt_frame (after_first_pass n) ''Monday'' ''10:00-11:00'' = [] \<and>
   pass_loop (scenario_config [''R1''] [] rs) ''X'' ''CODE'' False Lecture (initial_state n) 2 0 =
     (after_lectures n, 0, 2) \<and>
   create_timetable (scenario_config [''R1''] [] rs) [scenario_course ''2-0-0-0-2''] ra n =
     after_lectures n \<and>
   tt_frame (after_lectures n) =
     (\<lambda>day slot. if day = ''Monday'' \<and> (slot = ''08:00-09:00'' \<or> slot = ''09:00-10:00'')
                     \<or> day = ''Tuesday'' \<and> slot = ''08:00-09:00''
                  then ''CODE (R1)'' else [])"
  by (simp add: first_pass lecture_loop full_run)
     (auto simp add: after_first_pass_def after_lectures_def fun_eq_iff)

section \<open>Main results on the finder, the placer and the loops\<close>

text \<open>
  Claim C4. For every occupancy row the free-block finder returns exactly the maximal
  runs of catalog-consecutive slots that are empty and not excluded, in catalog order:
  the result is the list of maximal runs of the specification's reading; every group is
  non-empty and holds free slots only; the groups concatenated are the free slots of the
  catalog in catalog order; and the group at position \<open>i\<close> is a contiguous stretch of the
  catalog that begins at the catalog's start or right after an occupied or excluded slot,
  ends at the catalog's end (the trailing run) or right before one, and has exactly the
  earlier groups' slots as the free slots in front of it. The finder is a function of the
  row and returns the groups only, so it is deterministic and leaves the row as it was.
\<close>
theorem find_free_blocks_maximal_runs:
  "find_free_blocks cfg frame day = maximal_runs (is_free frame day) (slot_keys cfg) \<and>
   (\<forall>g\<in>set (find_free_blocks cfg frame day). g \<noteq> [] \<and> (\<forall>s\<in>set g. is_free frame day s)) \<and>
   concat (find_free_blocks cfg frame day) = filter (is_free frame day) (slot_keys cfg) \<and>
   (\<forall>i<length (find_free_blocks cfg frame day).
      \<exists>pre post. slot_keys cfg = pre @ find_free_blocks cfg frame day ! i @ post \<and>
        (pre = [] \<or> \<not> is_free frame day (last pre)) \<and>
        (post = [] \<or> \<not> is_free frame day (hd post)) \<and>
        filter (is_free frame day) pre = concat (take i (find_free_blocks cfg frame day)))"
proof (intro conjI)
  show "find_free_blocks cfg frame day = maximal_runs (is_free frame day) (slot_keys cfg)"
    by (rule find_free_blocks_runs)
  show "\<forall>g\<in>set (find_free_blocks cfg frame day). g \<noteq> [] \<and> (\<forall>s\<in>set g. is_free frame day s)"
    using maximal_runs_groups [of _ "is_free frame day" "slot_keys cfg"]
    by (simp only: find_free_blocks_runs) blast
  show "concat (find_free_blocks cfg frame day) = filter (is_free frame day) (slot_keys cfg)"
    by (simp only: find_free_blocks_runs maximal_runs_concat)
  show "\<forall>i<length (find_free_blocks cfg frame day).
      \<exists>pre post. slot_keys cfg = pre @ find_free_blocks cfg frame day ! i @ post \<and>
        (pre = [] \<or> \<not> is_free frame day (last pre)) \<and>
        (post = [] \<or> \<not> is_free frame day (hd post)) \<and>
        filter (is_free frame day) pre = concat (take i (find_free_blocks cfg frame day))"
    using maximal_runs_position [of _ "is_free frame day" "slot_keys cfg"]
    by (simp only: find_free_blocks_runs) blast
qed

text \<open>
  An all-empty day with the excluded lunch slot in the middle of the catalog: the two runs
  on either side of it, never merged.
\<close>
theorem find_free_blocks_lunch:
  "find_free_blocks lunch_config (\<lambda>day slot. []) ''Monday'' = [[''12:15-13:15''], [''14:00-15:00'']] \<and>
   maximal_runs (is_free (\<lambda>day slot. []) ''Monday'') (slot_keys lunch_config) =
     [[''12:15-13:15''], [''14:00-15:00'']] \<and>
   filter (is_free (\<lambda>day slot. []) ''Monday'') (slot_keys lunch_config) =
     [''12:15-13:15'', ''14:00-15:00'']"
proof -
  have v: "find_free_blocks lunch_config (\<lambda>day slot. []) ''Monday'' =
      [[''12:15-13:15''], [''14:00-15:00'']]"
    by (simp add: find_free_blocks_def lunch_config_def is_free_def excluded_slots_def)
  note t = find_free_blocks_maximal_runs [of lunch_config "\<lambda>day slot. []" "''Monday''"]
  note a = t [THEN conjunct1]
  note c = t [THEN conjunct2, THEN conjunct2, THEN conjunct1]
  show ?thesis by (simp add: a [symmetric] c [symmetric] v)
qed

text \<open>
  Claim C5. \<open>place_session\<close> returns false exactly when no free block of the day has a
  total duration of at least the requested one, or when the course is not an elective,
  has no room bound and the pool its session type asks for is empty. Whenever it returns
  false the grid is exactly as it was before the call, and so are the faculty sets, the
  room table and the random stream.
\<close>
theorem place_session_all_or_nothing:
  "(\<not> fst (place_session cfg st day faculty code dur ty el)) =
     (\<not> (\<exists>g\<in>set (find_free_blocks cfg (tt_frame st) day). fits cfg dur g) \<or>
      (\<not> el \<and> room_allocations st code = None \<and>
       (if ty = ''P'' then labs cfg = [] else classrooms cfg = []))) \<and>
   (\<not> fst (place_session cfg st day faculty code dur ty el) \<longrightarrow>
      tt_frame (snd (place_session cfg st day faculty code dur ty el)) = tt_frame st \<and>
      faculty_schedule (snd (place_session cfg st day faculty code dur ty el)) = faculty_schedule st \<and>
      room_allocations (snd (place_session cfg st day faculty code dur ty el)) = room_allocations st \<and>
      draws (snd (place_session cfg st day faculty code dur ty el)) = draws st)"
proof -
  have "(List.find (fits cfg dur) (find_free_blocks cfg (tt_frame st) day) = None) =
      (\<not> (\<exists>g\<in>set (find_free_blocks cfg (tt_frame st) day). fits cfg dur g))"
    by (auto simp: find_None_iff)
  then show ?thesis
    using place_session_fail_iff [of cfg st day faculty code dur ty el]
      place_session_fail [of cfg st day faculty code dur ty el]
    by (simp only:) blast
qed

text \<open>A lecture of an unbound course with no classroom at all: refused, grid untouched.\<close>
theorem place_session_no_classroom:
  "\<not> fst (place_session (scenario_config [] [] (\<lambda>n. 0)) (initial_state 0) ''Monday'' ''X'' ''CODE'' 1 ''L'' False) \<and>
   tt_frame (snd (place_session (scenario_config [] [] (\<lambda>n. 0)) (initial_state 0) ''Monday'' ''X'' ''CODE'' 1 ''L'' False)) =
     tt_frame (initial_state 0)"
proof -
  note t = place_session_all_or_nothing [of "scenario_config [] [] (\<lambda>n. 0)" "initial_state 0"
      "''Monday''" "''X''" "''CODE''" 1 "''L''" False]
  have "room_allocations (initial_state 0) ''CODE'' = None"
    and "classrooms (scenario_config [] [] (\<lambda>n. 0)) = []"
    by (simp_all add: initial_state_def scenario_config_def)
  then have f: "\<not> fst (place_session (scenario_config [] [] (\<lambda>n. 0)) (initial_state 0) ''Monday'' ''X'' ''CODE'' 1 ''L'' False)"
    using t by simp
  then show ?thesis using t by blast
qed

text \<open>
  Claim C3. A placement leaves every cell that holds a non-empty tag as it is, and writes
  into no excluded slot; the same holds over any sequence of courses scheduled from any
  state of a run, so no later placement overwrites an earlier one; and in the grid that
  \<open>create_timetable\<close> emits every excluded slot is empty on every day.
\<close>
theorem occupied_and_excluded_cells_kept:
  "(\<forall>d s. tt_frame st d s \<noteq> [] \<longrightarrow>
      tt_frame (snd (place_session cfg st day faculty code dur ty el)) d s = tt_frame st d s) \<and>
   (\<forall>d s. s \<in> set excluded_slots \<longrightarrow>
      tt_frame (snd (place_session cfg st day faculty code dur ty el)) d s = tt_frame st d s) \<and>
   (\<forall>d s. tt_frame st d s \<noteq> [] \<or> s \<in> set excluded_slots \<longrightarrow>
      tt_frame (fold (schedule_course cfg) cs st) d s = tt_frame st d s) \<and>
   (\<forall>d s. s \<in> set excluded_slots \<longrightarrow>
      tt_frame (create_timetable cfg course_list ra n) d s = [])"
proof (intro conjI allI impI)
  fix d s
  assume "tt_frame st d s \<noteq> []"
  then show "tt_frame (snd (place_session cfg st day faculty code dur ty el)) d s = tt_frame st d s"
    by (intro place_session_cell) simp_all
next
  fix d s
  assume "s \<in> set excluded_slots"
  then show "tt_frame (snd (place_session cfg st day faculty code dur ty el)) d s = tt_frame st d s"
    by (intro place_session_cell) simp_all
next
  fix d s
  assume "tt_frame st d s \<noteq> [] \<or> s \<in> set excluded_slots"
  then show "tt_frame (fold (schedule_course cfg) cs st) d s = tt_frame st d s"
    by (intro run_cell) simp_all
next
  fix d s
  assume "s \<in> set excluded_slots"
  then show "tt_frame (create_timetable cfg course_list ra n) d s = []"
    by (rule create_timetable_excluded)
qed

text \<open>
  Monday's first slot is taken after the first pass of the scenario: another course's
  lecture and a further run of the scheduler leave it alone, and the lunch slot of a
  catalog that has one is empty in the emitted grid.
\<close>
theorem occupied_cell_kept_after_first_pass:
  "tt_frame (snd (place_session (scenario_config [''R1''] [] (\<lambda>n. 0)) (after_first_pass 0)
                    ''Monday'' ''Y'' ''OTHER'' 1 ''L'' False)) ''Monday'' ''08:00-09:00'' = ''CODE (R1)'' \<and>
   tt_frame (fold (schedule_course (scenario_config [''R1''] [] (\<lambda>n. 0)))
               [scenario_course ''2-0-0-0-2''] (after_first_pass 0)) ''Monday'' ''08:00-09:00'' = ''CODE (R1)'' \<and>
   tt_frame (create_timetable lunch_config [scenario_course ''2-0-0-0-2''] Map.empty 0)
     ''Monday'' ''13:15-14:00'' = []"
proof -
  note t = occupied_and_excluded_cells_kept [of "after_first_pass 0"
      "scenario_config [''R1''] [] (\<lambda>n. 0)" "''Monday''" "''Y''" "''OTHER''" 1 "''L''" False
      "[scenario_course ''2-0-0-0-2'']"]
  note u = occupied_and_excluded_cells_kept [where cfg=lunch_config
      and course_list="[scenario_course ''2-0-0-0-2'']" and ra=Map.empty and n=0]
  have v: "tt_frame (after_first_pass 0) ''Monday'' ''08:00-09:00'' = ''CODE (R1)''"
    by (simp add: after_first_pass_def)
  have e: "''13:15-14:00'' \<in> set excluded_slots"
    by (simp add: excluded_slots_def)
  from v have ne: "tt_frame (after_first_pass 0) ''Monday'' ''08:00-09:00'' \<noteq> []" by simp
  from t ne have "tt_frame (snd (place_session (scenario_config [''R1''] [] (\<lambda>n. 0)) (after_first_pass 0)
      ''Monday'' ''Y'' ''OTHER'' 1 ''L'' False)) ''Monday'' ''08:00-09:00'' =
      tt_frame (after_first_pass 0) ''Monday'' ''08:00-09:00''" by blast
  moreover from t ne have "tt_frame (fold (schedule_course (scenario_config [''R1''] [] (\<lambda>n. 0)))
      [scenario_course ''2-0-0-0-2''] (after_first_pass 0)) ''Monday'' ''08:00-09:00'' =
      tt_frame (after_first_pass 0) ''Monday'' ''08:00-09:00''" by blast
  moreover from u e have "tt_frame (create_timetable lunch_config [scenario_course ''2-0-0-0-2''] Map.empty 0)
      ''Monday'' ''13:15-14:00'' = []" by blast
  ultimately show ?thesis by (simp only: v simp_thms)
qed



lemma distinct_count_le_1: "distinct xs \<Longrightarrow> count_list xs x \<le> 1"
  by (induction xs) auto

text \<open>
  Claim C7. A successful placement with a non-empty faculty name appends the name to the
  day's set exactly once and nothing else changes the sets, so a day's set lists the
  sessions placed on that day for named faculty; the scheduler skips a day whose set
  already holds the course's faculty; and in the state \<open>create_timetable\<close> ends in, no
  name occurs more than once in any day's set, across all courses and session types.
\<close>
theorem faculty_once_per_day:
  "faculty_schedule (snd (place_session cfg st day faculty code dur ty el)) =
     (if fst (place_session cfg st day faculty code dur ty el) \<and> faculty \<noteq> []
      then (faculty_schedule st)(day := faculty_schedule st day @ [faculty])
      else faculty_schedule st) \<and>
   (faculty \<noteq> [] \<and> faculty \<in> set (faculty_schedule st day) \<longrightarrow>
      day_loop cfg faculty code el sty (day # days) st remaining =
      day_loop cfg faculty code el sty days st remaining) \<and>
   (\<forall>d f. count_list (faculty_schedule (create_timetable cfg course_list ra n) d) f \<le> 1)"
proof (intro conjI allI impI)
  show "faculty_schedule (snd (place_session cfg st day faculty code dur ty el)) =
     (if fst (place_session cfg st day faculty code dur ty el) \<and> faculty \<noteq> []
      then (faculty_schedule st)(day := faculty_schedule st day @ [faculty])
      else faculty_schedule st)"
    by (rule place_session_faculty)
next
  assume "faculty \<noteq> [] \<and> faculty \<in> set (faculty_schedule st day)"
  then show "day_loop cfg faculty code el sty (day # days) st remaining =
      day_loop cfg faculty code el sty days st remaining"
    by (intro day_loop_skip) simp
next
  fix d f
  show "count_list (faculty_schedule (create_timetable cfg course_list ra n) d) f \<le> 1"
    by (rule distinct_count_le_1) (rule create_timetable_distinct)
qed

text \<open>X teaches on Monday after the first pass, so a tutorial of X skips Monday.\<close>
theorem faculty_skipped_on_monday:
  "day_loop (scenario_config [''R1''] [] (\<lambda>n. 0)) ''X'' ''CODE'' False Tutorial [''Monday'']
     (after_first_pass 0) 1 = (after_first_pass 0, 1)"
proof -
  note t = faculty_once_per_day [where st="after_first_pass 0" and day="''Monday''"
      and faculty="''X''" and cfg="scenario_config [''R1''] [] (\<lambda>n. 0)" and code="''CODE''"
      and el=False and sty=Tutorial and days="[]" and remaining=1]
  have "''X'' \<noteq> [] \<and> ''X'' \<in> set (faculty_schedule (after_first_pass 0) ''Monday'')"
    by (simp add: after_first_pass_def)
  with t have "day_loop (scenario_config [''R1''] [] (\<lambda>n. 0)) ''X'' ''CODE'' False Tutorial [''Monday'']
     (after_first_pass 0) 1 =
     day_loop (scenario_config [''R1''] [] (\<lambda>n. 0)) ''X'' ''CODE'' False Tutorial []
     (after_first_pass 0) 1" by blast
  then show ?thesis by simp
qed

text \<open>
  Claim C8. The loop for one course and session type is a total function that stops after
  at most \<open>MAX_ATTEMPTS = 10\<close> passes. When the faculty name is in every day's set and
  hours are to be placed, it stops after exactly 10 passes with the state untouched and
  all hours still remaining: nothing is placed and nothing is raised. Running out of
  passes is an ordinary return of the function.
\<close>
theorem pass_loop_bounded:
  "snd (snd (pass_loop cfg faculty code el sty st remaining 0)) \<le> MAX_ATTEMPTS \<and>
   MAX_ATTEMPTS = 10 \<and>
   (faculty \<noteq> [] \<and> (\<forall>d\<in>set week_days. faculty \<in> set (faculty_schedule st d)) \<and> 0 < remaining \<longrightarrow>
      pass_loop cfg faculty code el sty st remaining 0 = (st, remaining, 10)) \<and>
   (faculty \<noteq> [] \<and> (\<forall>d\<in>set week_days. faculty \<in> set (faculty_schedule st d)) \<longrightarrow>
      schedule_session cfg faculty code el sty hours st = st)"
proof (intro conjI impI)
  show "snd (snd (pass_loop cfg faculty code el sty st remaining 0)) \<le> MAX_ATTEMPTS"
    by (rule pass_loop_attempts) simp
  show m: "MAX_ATTEMPTS = 10" by (simp add: MAX_ATTEMPTS_def)
  {
    assume a: "faculty \<noteq> [] \<and> (\<forall>d\<in>set week_days. faculty \<in> set (faculty_schedule st d)) \<and> 0 < remaining"
    then show "pass_loop cfg faculty code el sty st remaining 0 = (st, remaining, 10)"
      using pass_loop_busy [of faculty st remaining 0 cfg code el sty] by (simp add: m)
  }
  {
    assume a: "faculty \<noteq> [] \<and> (\<forall>d\<in>set week_days. faculty \<in> set (faculty_schedule st d))"
    show "schedule_session cfg faculty code el sty hours st = st"
    proof (cases "0 < (of_int hours :: rat)")
      case True
      then show ?thesis
        using a pass_loop_busy [of faculty st "of_int hours" 0 cfg code el sty]
        by (simp add: schedule_session_def)
    next
      case False
      then show ?thesis by (simp add: schedule_session_def pass_loop_stop)
    qed
  }
qed

text \<open>Two lecture hours for X in a week in which X is busy every day.\<close>
theorem pass_loop_busy_week:
  "pass_loop (scenario_config [''R1''] [] (\<lambda>n. 0)) ''X'' ''CODE'' False Lecture busy_week 2 0 =
     (busy_week, 2, 10) \<and>
   schedule_session (scenario_config [''R1''] [] (\<lambda>n. 0)) ''X'' ''CODE'' False Lecture 2 busy_week =
     busy_week"
proof -
  note t = pass_loop_bounded [of "scenario_config [''R1''] [] (\<lambda>n. 0)" "''X''" "''CODE''" False
      Lecture busy_week 2 2]
  have b: "''X'' \<noteq> [] \<and> (\<forall>d\<in>set week_days. ''X'' \<in> set (faculty_schedule busy_week d))"
    by (simp add: busy_week_def)
  have p: "(0::rat) < 2" by simp
  from t b p show ?thesis by blast
qed




text \<open>
  Claim C10. An elective placement leaves the room table, the random stream and the
  diagnostics as they were, succeeds exactly when some free block of the day is long
  enough, and does the same with both room pools emptied.
\<close>
theorem elective_skips_rooms:
  "room_allocations (snd (place_session cfg st day faculty code dur ty True)) = room_allocations st \<and>
   draws (snd (place_session cfg st day faculty code dur ty True)) = draws st \<and>
   printed (snd (place_session cfg st day faculty code dur ty True)) = printed st \<and>
   fst (place_session cfg st day faculty code dur ty True) =
     (\<exists>g\<in>set (find_free_blocks cfg (tt_frame st) day). fits cfg dur g) \<and>
   place_session (cfg\<lparr>classrooms := [], labs := []\<rparr>) st day faculty code dur ty True =
     place_session cfg st day faculty code dur ty True"
proof -
  have "(List.find (fits cfg dur) (find_free_blocks cfg (tt_frame st) day) \<noteq> None) =
      (\<exists>g\<in>set (find_free_blocks cfg (tt_frame st) day). fits cfg dur g)"
    by (auto simp: find_None_iff)
  then show ?thesis
    using place_session_elective [of cfg st day faculty code dur ty]
      place_session_elective_pools [where cfg=cfg and cs="[]" and ls="[]" and st=st and day=day
        and faculty=faculty and code=code and dur=dur and ty=ty]
    by (simp only: simp_thms)
qed

text \<open>An elective lecture placed with no classroom and no lab at all.\<close>
theorem elective_without_rooms:
  "place_session ((scenario_config [''R1''] [''L1''] (\<lambda>n. 0))\<lparr>classrooms := [], labs := []\<rparr>)
     (initial_state 0) ''Monday'' ''X'' ''Elective'' 1 ''L'' True =
    (True, \<lparr>tt_frame = (\<lambda>day slot. [])(''Monday'' := (\<lambda>slot. [])(''08:00-09:00'' := ''Elective'')),
            faculty_schedule = (\<lambda>day. [])(''Monday'' := [''X'']),
            room_allocations = Map.empty, draws = 0, printed = []\<rparr>)"
proof -
  have "place_session (scenario_config [''R1''] [''L1''] (\<lambda>n. 0))
     (initial_state 0) ''Monday'' ''X'' ''Elective'' 1 ''L'' True =
    (True, \<lparr>tt_frame = (\<lambda>day slot. [])(''Monday'' := (\<lambda>slot. [])(''08:00-09:00'' := ''Elective'')),
            faculty_schedule = (\<lambda>day. [])(''Monday'' := [''X'']),
            room_allocations = Map.empty, draws = 0, printed = []\<rparr>)"
    by (simp add: initial_state_def place_defs)
  then show ?thesis
    using elective_skips_rooms [of "scenario_config [''R1''] [''L1''] (\<lambda>n. 0)" "initial_state 0"
        "''Monday''" "''X''" "''Elective''" 1 "''L''"]
    by (simp only:)
qed

end
